theory Spec2Isabelle
  imports Complex_Main
begin

section \<open>The game store of App.js\<close>

text \<open>
  The store created at lines 19--31 holds two data fields, \<open>count\<close> and \<open>welcome\<close>.
  \<open>count\<close> starts at the literal 0 and the only values ever written to it are
  \<open>state.count + 1\<close>, \<open>state.count\<close> and the literal 0, so it is a natural number.
  JavaScript numbers are doubles; the model is exact, which agrees with the code for
  every count below \<open>2 ^ 53\<close>.
\<close>

record game_state =
  count :: nat
  "welcome" :: bool

text \<open>
  The object an updater hands to \<open>set\<close>: each field is either given or left out.
  \<open>set(state => ({ count: state.count + 1 }))\<close> gives \<open>count\<close> only,
  \<open>set(state => ({ welcome, count: ... }))\<close> gives both.
\<close>

record partial_state =
  new_count :: "nat option"
  new_welcome :: "bool option"

text \<open>
  The \<open>Audio\<close> element of line 18, reduced to the three members the code touches:
  \<open>currentTime\<close>, \<open>volume\<close> and whether it is paused (\<open>play()\<close> clears that).
  Numbers are modelled as reals: impact velocities are finite numbers and rounding is
  left out.
\<close>

record audio =
  currentTime :: real
  volume :: real
  paused :: bool

text \<open>
  Every observable write, in program order, so that the order of the writes of one call
  can be stated.
\<close>

datatype effect =
    SetCurrentTime real
  | SetVolume real
  | Play
  | StoreSet partial_state

record world =
  store :: game_state
  ping :: audio
  trace :: "effect list"

definition set_currentTime :: "real \<Rightarrow> world \<Rightarrow> world" where
  "set_currentTime t w =
     w\<lparr>ping := (ping w)\<lparr>currentTime := t\<rparr>, trace := trace w @ [SetCurrentTime t]\<rparr>"

definition set_volume :: "real \<Rightarrow> world \<Rightarrow> world" where
  "set_volume v w =
     w\<lparr>ping := (ping w)\<lparr>volume := v\<rparr>, trace := trace w @ [SetVolume v]\<rparr>"

definition play :: "world \<Rightarrow> world" where
  "play w = w\<lparr>ping := (ping w)\<lparr>paused := False\<rparr>, trace := trace w @ [Play]\<rparr>"

text \<open>
  Modelled from the spec: zustand's \<open>set\<close> is library code that is not part of the
  sources. It calls the updater on the current state and merges the fields of the object
  it returns into the state; a field the object leaves out keeps its value (section 4.1 of
  the specification: \<open>pong\<close> changes \<open>count\<close> and nothing else of the store).
\<close>

definition merge_state :: "game_state \<Rightarrow> partial_state \<Rightarrow> game_state" where
  "merge_state s p =
     \<lparr>count = (case new_count p of None \<Rightarrow> count s | Some c \<Rightarrow> c),
      welcome = (case new_welcome p of None \<Rightarrow> welcome s | Some b \<Rightarrow> b)\<rparr>"

definition set_store :: "(game_state \<Rightarrow> partial_state) \<Rightarrow> world \<Rightarrow> world" where
  "set_store updater w =
     w\<lparr>store := merge_state (store w) (updater (store w)),
       trace := trace w @ [StoreSet (updater (store w))]\<rparr>"

text \<open>
  Modelled from the spec: \<open>clamp\<close> is imported from lodash and is not part of the
  sources. The specification reads \<open>clamp(velocity / 20, 0, 1)\<close> as
  \<open>max(0, min(1, velocity / 20))\<close>; the definition bounds the number from above first
  and from below second, in lodash's argument order \<open>(number, lower, upper)\<close>.
\<close>

definition clamp :: "real \<Rightarrow> real \<Rightarrow> real \<Rightarrow> real" where
  "clamp number lower upper =
     (let n = (if number \<le> upper then number else upper)
      in if lower \<le> n then n else lower)"

text \<open>
  Lines 23--28:
  \<^verbatim>\<open>
  pong(velocity) {
    ping.currentTime = 0
    ping.volume = clamp(velocity / 20, 0, 1)
    ping.play()
    if (velocity > 4) set(state => ({ count: state.count + 1 }))
  }
  \<close>
\<close>

definition pong :: "real \<Rightarrow> world \<Rightarrow> world" where
  "pong velocity w =
     (let w1 = set_currentTime 0 w;
          w2 = set_volume (clamp (velocity / 20) 0 1) w1;
          w3 = play w2
      in if velocity > 4
         then set_store (\<lambda>state. \<lparr>new_count = Some (count state + 1), new_welcome = None\<rparr>) w3
         else w3)"

text \<open>
  Line 29:
  \<^verbatim>\<open>reset: welcome => set(state => ({ welcome, count: welcome ? state.count : 0 }))\<close>
\<close>

definition reset :: "bool \<Rightarrow> world \<Rightarrow> world" where
  "reset welcome' w =
     set_store (\<lambda>state. \<lparr>new_count = Some (if welcome' then count state else 0),
                          new_welcome = Some welcome'\<rparr>) w"

text \<open>
  Line 102: \<^verbatim>\<open>const onClick = useCallback(() => welcome && reset(false), [welcome, reset])\<close>.
  The callback is rebuilt whenever \<open>welcome\<close> changes, so the value it tests is the
  store's.
\<close>

definition onClick :: "world \<Rightarrow> world" where
  "onClick w = (if welcome (store w) then reset False w else w)"

text \<open>
  The three ways the store is reached: the paddle's collision callback (line 43), the
  ground's (line 95) and the canvas click (line 105).
\<close>

datatype event =
    PaddleCollide real
  | GroundCollide
  | Click

fun dispatch :: "event \<Rightarrow> world \<Rightarrow> world" where
  "dispatch (PaddleCollide impactVelocity) w = pong impactVelocity w"
| "dispatch GroundCollide w = reset True w"
| "dispatch Click w = onClick w"

fun run :: "world \<Rightarrow> event list \<Rightarrow> world" where
  "run w [] = w"
| "run w (e # es) = run (dispatch e w) es"

text \<open>
  The state at start-up: \<open>count: 0, welcome: true\<close> (lines 20--21) and a fresh audio
  element (at time 0, full volume, paused).
\<close>

definition initial_world :: world where
  "initial_world =
     \<lparr>store = \<lparr>count = 0, welcome = True\<rparr>,
      ping = \<lparr>currentTime = 0, volume = 1, paused = True\<rparr>,
      trace = []\<rparr>"

section \<open>The paddle's frame callback\<close>

text \<open>
  Modelled from the spec: \<open>lerp\<close> is an imported package that is not part of the
  sources. The specification's glossary gives it as
  \<open>value += factor * (target - value)\<close>.
\<close>

definition lerp :: "'a::linordered_field \<Rightarrow> 'a \<Rightarrow> 'a \<Rightarrow> 'a" where
  "lerp v0 v1 t = v0 + t * (v1 - v0)"

text \<open>
  What the callback of lines 46--55 reads and writes: the two-element array
  \<open>values.current\<close> (a pair: index 0 first, index 1 second), the rigid body's position
  and rotation, and the model's rotation about x and y.
\<close>

record paddle =
  values_current :: "real \<times> real"
  position :: "real \<times> real \<times> real"
  rotation :: "real \<times> real \<times> real"
  model_rotation_x :: real
  model_rotation_y :: real

text \<open>
  \<^verbatim>\<open>
  values.current[0] = lerp(values.current[0], (state.mouse.x * Math.PI) / 5, 0.2)
  values.current[1] = lerp(values.current[1], (state.mouse.x * Math.PI) / 5, 0.2)
  api.position.set(state.mouse.x * 10, state.mouse.y * 5, 0)
  api.rotation.set(0, 0, values.current[1])
  model.current.rotation.x = lerp(model.current.rotation.x, welcome ? Math.PI / 2 : 0, 0.2)
  model.current.rotation.y = values.current[0]
  \<close>
  The arguments are the pointer \<open>state.mouse\<close> and the \<open>welcome\<close> flag of the render.
\<close>

definition frame :: "real \<times> real \<Rightarrow> bool \<Rightarrow> paddle \<Rightarrow> paddle" where
  "frame mouse welcome' p =
     (let mouse_x = fst mouse;
          mouse_y = snd mouse;
          v0 = lerp (fst (values_current p)) ((mouse_x * pi) / 5) 0.2;
          v1 = lerp (snd (values_current p)) ((mouse_x * pi) / 5) 0.2
      in \<lparr>values_current = (v0, v1),
          position = (mouse_x * 10, mouse_y * 5, 0),
          rotation = (0, 0, v1),
          model_rotation_x = lerp (model_rotation_x p) (if welcome' then pi / 2 else 0) 0.2,
          model_rotation_y = v0\<rparr>)"

text \<open>One callback per rendered frame, each with that frame's pointer and flag.\<close>

fun frames :: "paddle \<Rightarrow> ((real \<times> real) \<times> bool) list \<Rightarrow> paddle" where
  "frames p [] = p"
| "frames p (i # is) = frames (frame (fst i) (snd i) p) is"

text \<open>\<open>useRef([0, 0])\<close> (line 45); a body and a model that have not been moved.\<close>

definition initial_paddle :: paddle where
  "initial_paddle =
     \<lparr>values_current = (0, 0),
      position = (0, 0, 0),
      rotation = (0, 0, 0),
      model_rotation_x = 0,
      model_rotation_y = 0\<rparr>"

text \<open>
  The update of lines 48--49 repeated \<open>n\<close> times against one target \<open>T\<close>, from the
  value \<open>v0\<close>.
\<close>

fun smoothed :: "nat \<Rightarrow> 'a::linordered_field \<Rightarrow> 'a \<Rightarrow> 'a" where
  "smoothed 0 T v0 = v0"
| "smoothed (Suc n) T v0 = lerp (smoothed n T v0) T 0.2"

section \<open>Basic facts\<close>

lemma store_set_store:
  "store (set_store f w) = merge_state (store w) (f (store w))"
  by (simp add: set_store_def)

lemma store_audio_steps:
  "store (set_currentTime t w) = store w"
  "store (set_volume v w) = store w"
  "store (play w) = store w"
  by (simp_all add: set_currentTime_def set_volume_def play_def)

lemma store_pong:
  "store (pong velocity w) =
     (if velocity > 4 then (store w)\<lparr>count := count (store w) + 1\<rparr> else store w)"
  by (simp add: pong_def Let_def store_set_store store_audio_steps merge_state_def)

lemma store_reset:
  "store (reset b w) = \<lparr>count = (if b then count (store w) else 0), welcome = b\<rparr>"
  by (simp add: reset_def store_set_store merge_state_def)

lemma store_onClick:
  "store (onClick w) =
     (if welcome (store w) then \<lparr>count = 0, welcome = False\<rparr> else store w)"
  by (simp add: onClick_def store_reset)

lemma run_snoc: "run w (es @ [e]) = dispatch e (run w es)"
  by (induction es arbitrary: w) simp_all

text \<open>One operation, from any state: what it does to \<open>count\<close>, by the change of \<open>welcome\<close>.\<close>

lemma dispatch_count:
  "(\<not> welcome (store w) \<and> welcome (store (dispatch e w)) \<longrightarrow>
      count (store (dispatch e w)) = count (store w))
   \<and> (welcome (store w) \<and> \<not> welcome (store (dispatch e w)) \<longrightarrow>
      count (store (dispatch e w)) = 0)
   \<and> (\<not> welcome (store w) \<longrightarrow> count (store w) \<le> count (store (dispatch e w)))"
  by (cases e) (simp_all add: store_pong store_reset store_onClick)

text \<open>Bounding from above and then from below is the specification's \<open>max\<close> of \<open>min\<close>.\<close>

lemma clamp_max_min: "clamp number lower upper = max lower (min upper number)"
  by (simp add: clamp_def Let_def max_def min_def)

lemma trace_pong:
  "trace (pong velocity w) =
     trace w @ [SetCurrentTime 0, SetVolume (clamp (velocity / 20) 0 1), Play]
       @ (if velocity > 4
          then [StoreSet \<lparr>new_count = Some (count (store w) + 1), new_welcome = None\<rparr>]
          else [])"
  by (simp add: pong_def Let_def set_store_def set_currentTime_def set_volume_def play_def)

lemma ping_pong:
  "ping (pong velocity w) =
     \<lparr>currentTime = 0, volume = clamp (velocity / 20) 0 1, paused = False\<rparr>"
  by (simp add: pong_def Let_def set_store_def set_currentTime_def set_volume_def play_def)

text \<open>
  The weighted form \<open>v0 * (1 - t) + v1 * t\<close> of the interpolation is the same function
  in exact arithmetic.
\<close>

lemma lerp_weighted: "lerp v0 v1 t = v0 * (1 - t) + v1 * t"
  by (simp add: lerp_def algebra_simps)

lemma lerp_fifth: "lerp v T 0.2 = T + (v - T) * 0.8"
  by (simp add: lerp_def field_simps)

lemma values_current_frame:
  "values_current (frame mouse b p) =
     (lerp (fst (values_current p)) (fst mouse * pi / 5) 0.2,
      lerp (snd (values_current p)) (fst mouse * pi / 5) 0.2)"
  by (simp add: frame_def Let_def)

lemma frames_values_equal:
  "fst (values_current p) = snd (values_current p) \<Longrightarrow>
   fst (values_current (frames p inputs)) = snd (values_current (frames p inputs))"
  by (induction inputs arbitrary: p) (simp_all add: values_current_frame)

lemma smoothed_closed_form:
  "smoothed n T v0 = T + (v0 - T) * 0.8 ^ n"
proof (induction n)
  case 0
  show ?case by simp
next
  case (Suc n)
  have "smoothed (Suc n) T v0 = T + (smoothed n T v0 - T) * 0.8"
    by (simp only: smoothed.simps lerp_fifth)
  also have "\<dots> = T + ((v0 - T) * 0.8 ^ n) * 0.8"
    by (simp only: Suc.IH add_diff_cancel_left')
  also have "\<dots> = T + (v0 - T) * 0.8 ^ Suc n"
    by (simp only: power_Suc2 mult.assoc)
  finally show ?case .
qed

lemma smoothed_shift: "smoothed n T (lerp v0 T 0.2) = smoothed (Suc n) T v0"
  by (induction n) (simp_all only: smoothed.simps)

text \<open>
  \<open>smoothed\<close> is what the callback computes in both components of \<open>values.current\<close>
  over \<open>n\<close> frames whose pointer keeps one x coordinate.
\<close>

lemma frames_constant_target:
  "values_current (frames p (replicate n ((mx, my), b))) =
     (smoothed n (mx * pi / 5) (fst (values_current p)),
      smoothed n (mx * pi / 5) (snd (values_current p)))"
proof (induction n arbitrary: p)
  case 0
  show ?case by simp
next
  case (Suc n)
  have "values_current (frames p (replicate (Suc n) ((mx, my), b))) =
        values_current (frames (frame (mx, my) b p) (replicate n ((mx, my), b)))"
    by simp
  also have "\<dots> =
        (smoothed n (mx * pi / 5) (lerp (fst (values_current p)) (mx * pi / 5) 0.2),
         smoothed n (mx * pi / 5) (lerp (snd (values_current p)) (mx * pi / 5) 0.2))"
    by (simp only: Suc.IH values_current_frame fst_conv snd_conv)
  finally show ?case
    by (simp only: smoothed_shift)
qed

section \<open>The store's operations\<close>

text \<open>
  C1, as the code has it: for every prior state, \<open>reset(true)\<close> sets \<open>welcome\<close> to true
  and leaves \<open>count\<close> as it was; a ball-ground contact, which calls \<open>reset(true)\<close>
  whatever the state, therefore yields the prior count with \<open>welcome = true\<close>.
\<close>

theorem reset_true_keeps_count:
  "store (reset True w) = \<lparr>count = count (store w), welcome = True\<rparr>
   \<and> store (dispatch GroundCollide w) = \<lparr>count = count (store w), welcome = True\<rparr>"
  by (simp add: store_reset)

text \<open>
  C1 as stated fails: from a store with count 3, \<open>reset(true)\<close> does not give count 0,
  and the ground contact does not give \<open>{count: 0, welcome: true}\<close>.
\<close>

theorem reset_true_zero_counterexample:
  "count (store (reset True
      \<lparr>store = \<lparr>count = 3, welcome = False\<rparr>,
       ping = \<lparr>currentTime = 0, volume = 1, paused = True\<rparr>,
       trace = []\<rparr>)) \<noteq> 0
   \<and> store (dispatch GroundCollide
      \<lparr>store = \<lparr>count = 3, welcome = False\<rparr>,
       ping = \<lparr>currentTime = 0, volume = 1, paused = True\<rparr>,
       trace = []\<rparr>) \<noteq> \<lparr>count = 0, welcome = True\<rparr>"
  by (simp add: store_reset)

text \<open>
  C2, as the code has it: for every prior state, \<open>reset(false)\<close> sets \<open>welcome\<close> to
  false and sets \<open>count\<close> to 0.
\<close>

theorem reset_false_clears_count:
  "store (reset False w) = \<lparr>count = 0, welcome = False\<rparr>"
  by (simp add: store_reset)

text \<open>
  C2 as stated fails: from a store with count 3, \<open>reset(false)\<close> does not leave the
  count unchanged.
\<close>

theorem reset_false_unchanged_counterexample:
  "count (store (reset False
      \<lparr>store = \<lparr>count = 3, welcome = True\<rparr>,
       ping = \<lparr>currentTime = 0, volume = 1, paused = True\<rparr>,
       trace = []\<rparr>)) \<noteq> 3"
  by (simp add: store_reset)

text \<open>
  C4: for every velocity and every prior state, \<open>pong(velocity)\<close> leaves \<open>count\<close>
  unchanged when the velocity is at most 4 and increases it by exactly 1 when the velocity
  is above 4.
\<close>

theorem pong_count:
  "(velocity \<le> 4 \<longrightarrow> count (store (pong velocity w)) = count (store w))
   \<and> (velocity > 4 \<longrightarrow> count (store (pong velocity w)) = count (store w) + 1)"
  by (simp add: store_pong)

theorem pong_count_witness:
  "(2::real) \<le> 4 \<and> count (store (pong 2 initial_world)) = count (store initial_world)
   \<and> (10::real) > 4 \<and> count (store (pong 10 initial_world)) = count (store initial_world) + 1"
  using pong_count [of 2 initial_world] pong_count [of 10 initial_world]
  by simp

text \<open>
  C10: for every velocity and every prior state, \<open>pong(velocity)\<close> leaves \<open>welcome\<close>
  unchanged.
\<close>

theorem pong_welcome_unchanged:
  "welcome (store (pong velocity w)) = welcome (store w)"
  by (simp add: store_pong)

text \<open>
  C5: \<open>pong\<close> is the only operation that increases \<open>count\<close>. For either boolean,
  \<open>reset\<close> never yields a count above the prior one, and neither does the click handler
  built on it; \<open>pong\<close> does raise the count (at velocity 5, from every state).
\<close>

theorem only_pong_increases_count:
  "count (store (reset b w)) \<le> count (store w)
   \<and> count (store (onClick w)) \<le> count (store w)
   \<and> count (store w) < count (store (pong 5 w))"
  by (simp add: store_reset store_onClick store_pong)

text \<open>
  C6: for every velocity, also one at or below 4, \<open>pong(velocity)\<close> rewinds the cue to
  time 0, sets its volume to \<open>max(0, min(1, velocity / 20))\<close> and plays it. These three
  writes are the first of the call; the write to the store, made only above velocity 4,
  comes after them.
\<close>

theorem pong_audio_first:
  "trace (pong velocity w) =
     trace w @ [SetCurrentTime 0, SetVolume (max 0 (min 1 (velocity / 20))), Play]
       @ (if velocity > 4
          then [StoreSet \<lparr>new_count = Some (count (store w) + 1), new_welcome = None\<rparr>]
          else [])
   \<and> ping (pong velocity w) =
       \<lparr>currentTime = 0, volume = max 0 (min 1 (velocity / 20)), paused = False\<rparr>"
  by (simp only: trace_pong ping_pong clamp_max_min simp_thms)

section \<open>The click handler and the reachable states\<close>

text \<open>
  C9: a click calls \<open>reset(false)\<close> only while \<open>welcome\<close> is true, and a click while
  \<open>welcome\<close> is false changes nothing; from \<open>{count: 0, welcome: true}\<close> a click yields
  \<open>{count: 0, welcome: false}\<close>.
\<close>

theorem click_guard:
  "(\<not> welcome (store w) \<longrightarrow> onClick w = w)
   \<and> (welcome (store w) \<longrightarrow> onClick w = reset False w)
   \<and> store (onClick initial_world) = \<lparr>count = 0, welcome = False\<rparr>"
  by (simp add: onClick_def store_reset initial_world_def)

theorem click_guard_witness:
  "\<not> welcome (store (run initial_world [Click, PaddleCollide 10]))
   \<and> onClick (run initial_world [Click, PaddleCollide 10])
       = run initial_world [Click, PaddleCollide 10]
   \<and> welcome (store initial_world)
   \<and> onClick initial_world = reset False initial_world"
proof -
  have playing: "\<not> welcome (store (run initial_world [Click, PaddleCollide 10]))"
    by (simp add: store_pong store_onClick initial_world_def)
  have waiting: "welcome (store initial_world)"
    by (simp add: initial_world_def)
  from playing click_guard [of "run initial_world [Click, PaddleCollide 10]"]
  have ignored: "onClick (run initial_world [Click, PaddleCollide 10])
      = run initial_world [Click, PaddleCollide 10]"
    by blast
  from waiting click_guard [of initial_world]
  have started: "onClick initial_world = reset False initial_world"
    by blast
  from playing ignored waiting started show ?thesis by blast
qed

text \<open>
  C3, as the code has it. In every state reached from \<open>{count: 0, welcome: true}\<close> by
  paddle hits, ground contacts and clicks, and for every further operation: when
  \<open>welcome\<close> goes from false to true the count is left as it was; when \<open>welcome\<close> goes
  from true to false the count becomes 0; and while \<open>welcome\<close> is false no operation
  lowers the count.
\<close>

theorem count_across_operations:
  "(\<not> welcome (store (run initial_world es))
      \<and> welcome (store (run initial_world (es @ [e]))) \<longrightarrow>
        count (store (run initial_world (es @ [e]))) = count (store (run initial_world es)))
   \<and> (welcome (store (run initial_world es))
      \<and> \<not> welcome (store (run initial_world (es @ [e]))) \<longrightarrow>
        count (store (run initial_world (es @ [e]))) = 0)
   \<and> (\<not> welcome (store (run initial_world es)) \<longrightarrow>
        count (store (run initial_world es)) \<le> count (store (run initial_world (es @ [e]))))"
  using dispatch_count [of "run initial_world es" e]
  by (simp only: run_snoc)

theorem count_across_operations_witness:
  "\<not> welcome (store (run initial_world [Click, PaddleCollide 10]))
   \<and> welcome (store (run initial_world ([Click, PaddleCollide 10] @ [GroundCollide])))
   \<and> count (store (run initial_world ([Click, PaddleCollide 10] @ [GroundCollide])))
       = count (store (run initial_world [Click, PaddleCollide 10]))
   \<and> welcome (store (run initial_world []))
   \<and> \<not> welcome (store (run initial_world ([] @ [Click])))
   \<and> count (store (run initial_world ([] @ [Click]))) = 0
   \<and> \<not> welcome (store (run initial_world [Click]))
   \<and> count (store (run initial_world [Click]))
       \<le> count (store (run initial_world ([Click] @ [PaddleCollide 10])))"
  using count_across_operations [of "[Click, PaddleCollide 10]" GroundCollide]
    count_across_operations [of "[]" Click]
    count_across_operations [of "[Click]" "PaddleCollide 10"]
  by (simp add: store_pong store_reset store_onClick initial_world_def)

text \<open>
  C3 as stated fails: after a click and a paddle hit at velocity 10 the ground contact
  takes \<open>welcome\<close> from false to true and the count is 1, not 0.
\<close>

theorem count_zero_on_welcome_counterexample:
  "\<not> welcome (store (run initial_world [Click, PaddleCollide 10]))
   \<and> welcome (store (run initial_world [Click, PaddleCollide 10, GroundCollide]))
   \<and> count (store (run initial_world [Click, PaddleCollide 10, GroundCollide])) \<noteq> 0"
  by (simp add: store_pong store_reset store_onClick initial_world_def)

section \<open>The paddle's pose and the smoothing law\<close>

text \<open>
  C7: on every frame the body's position is written from the raw pointer as
  \<open>(pointer.x * 10, pointer.y * 5, 0)\<close> and its rotation as \<open>(0, 0, tilt)\<close> with the
  tilt just smoothed; both components of the stored pair move by the factor 0.2 towards
  the one target \<open>pointer.x * pi / 5\<close>; and from the initial pair \<open>(0, 0)\<close> the two
  components are equal after any sequence of frames.
\<close>

theorem paddle_pose:
  "position (frame (mx, my) b p) = (mx * 10, my * 5, 0)
   \<and> rotation (frame (mx, my) b p) = (0, 0, snd (values_current (frame (mx, my) b p)))
   \<and> fst (values_current (frame (mx, my) b p))
       = lerp (fst (values_current p)) (mx * pi / 5) 0.2
   \<and> snd (values_current (frame (mx, my) b p))
       = lerp (snd (values_current p)) (mx * pi / 5) 0.2
   \<and> fst (values_current (frames initial_paddle inputs))
       = snd (values_current (frames initial_paddle inputs))"
proof -
  have pose: "position (frame (mx, my) b p) = (mx * 10, my * 5, 0)
      \<and> rotation (frame (mx, my) b p) = (0, 0, snd (values_current (frame (mx, my) b p)))"
    by (simp add: frame_def Let_def)
  have pair: "fst (values_current (frame (mx, my) b p))
        = lerp (fst (values_current p)) (mx * pi / 5) 0.2
      \<and> snd (values_current (frame (mx, my) b p))
        = lerp (snd (values_current p)) (mx * pi / 5) 0.2"
    by (simp add: values_current_frame)
  have "fst (values_current initial_paddle) = snd (values_current initial_paddle)"
    by (simp add: initial_paddle_def)
  then have same: "fst (values_current (frames initial_paddle inputs))
      = snd (values_current (frames initial_paddle inputs))"
    by (rule frames_values_equal)
  from pose pair same show ?thesis by blast
qed

text \<open>
  C8: with a constant target \<open>T\<close>, the update \<open>smoothed + 0.2 * (T - smoothed)\<close> gives
  \<open>T + (v0 - T) * 0.8 ^ n\<close> after \<open>n\<close> frames from \<open>v0\<close>, in every ordered field (the
  rationals among them), and so never equals \<open>T\<close> when \<open>v0\<close> differs from \<open>T\<close>. The
  callback's stored tilt follows the same law over \<open>n\<close> frames with one pointer x.
\<close>

theorem smoothing_law:
  "smoothed n T v0 = T + (v0 - T) * 0.8 ^ n
   \<and> (v0 \<noteq> T \<longrightarrow> smoothed n T v0 \<noteq> T)
   \<and> snd (values_current (frames p (replicate n ((mx, my), b))))
       = mx * pi / 5 + (snd (values_current p) - mx * pi / 5) * 0.8 ^ n"
  by (simp add: frames_constant_target smoothed_closed_form)

theorem smoothing_law_witness:
  "(0::rat) \<noteq> 1
   \<and> smoothed 3 1 (0::rat) = 61 / 125
   \<and> smoothed 3 1 (0::rat) \<noteq> 1"
  using smoothing_law [of 3 "1::rat" 0 initial_paddle 0 0 True]
  by (simp add: eval_nat_numeral)

end
